theory Spec2Isabelle
  imports Main
begin

section \<open>Frontend: the questionnaire-completion flag\<close>

text \<open>
  The three utility functions beside the \<open>useQuestionnaireCheck\<close> hook read and write one
  key of the browser's \<open>localStorage\<close>. The storage is a string-keyed table of strings:
  \<open>getItem\<close> answers \<open>null\<close> (here \<open>None\<close>) for a key that is not stored.
\<close>

type_synonym Storage = "string \<rightharpoonup> string"

definition getItem :: "Storage \<Rightarrow> string \<Rightarrow> string option" where
  "getItem localStorage k = localStorage k"

definition setItem :: "Storage \<Rightarrow> string \<Rightarrow> string \<Rightarrow> Storage" where
  "setItem localStorage k v = localStorage(k \<mapsto> v)"

definition removeItem :: "Storage \<Rightarrow> string \<Rightarrow> Storage" where
  "removeItem localStorage k = localStorage(k := None)"

text \<open>\<^verbatim>\<open>return localStorage.getItem('questionnaire_completed') === 'true';\<close>\<close>

definition isQuestionnaireCompleted :: "Storage \<Rightarrow> bool" where
  "isQuestionnaireCompleted localStorage =
     (getItem localStorage ''questionnaire_completed'' = Some ''true'')"

text \<open>\<^verbatim>\<open>localStorage.setItem('questionnaire_completed', 'true');\<close>\<close>

definition markQuestionnaireCompleted :: "Storage \<Rightarrow> Storage" where
  "markQuestionnaireCompleted localStorage =
     setItem localStorage ''questionnaire_completed'' ''true''"

text \<open>\<^verbatim>\<open>localStorage.removeItem('questionnaire_completed');\<close>\<close>

definition resetQuestionnaireStatus :: "Storage \<Rightarrow> Storage" where
  "resetQuestionnaireStatus localStorage =
     removeItem localStorage ''questionnaire_completed''"


section \<open>Frontend: deleting a session through the assessment API client\<close>

text \<open>
  What the HTTP client hands back. A resolved request carries \<open>response.data\<close>; a rejected
  one carries the error object, whose \<open>response\<close> is missing when no answer arrived.
  \<open>detail\<close> is \<open>response.data.detail\<close>, \<open>None\<close> when \<open>data\<close> or \<open>detail\<close> is undefined.
\<close>

record http_response =
  status :: int
  detail :: "string option"

record js_error =
  response :: "http_response option"
  message :: "string option"

datatype 'd request_outcome = Resolves 'd | Rejects js_error

text \<open>The values \<open>deleteSession\<close> returns: \<open>response.data\<close> as it came, or an object literal.\<close>

datatype js_prim = JBool bool | JString string

datatype 'd js_value = Data 'd | Object "(string \<times> js_prim) list"

text \<open>The hook's two pieces of React state.\<close>

record hook_state =
  isLoading :: bool
  error :: "string option"

text \<open>JavaScript's \<open>a || b\<close> on strings that may be undefined: the empty string is falsy.\<close>

fun js_or :: "string option \<Rightarrow> string option \<Rightarrow> string option" where
  "js_or None b = b"
| "js_or (Some a) b = (if a = [] then b else Some a)"

text \<open>
  \<^verbatim>\<open>const errorMessage = err.response?.data?.detail || err.message || 'An error occurred';\<close>
\<close>

definition errorMessage :: "js_error \<Rightarrow> string option" where
  "errorMessage err =
     js_or (js_or (case response err of None \<Rightarrow> None | Some r \<Rightarrow> detail r) (message err))
           (Some ''An error occurred'')"

text \<open>
  \<open>handleError\<close> records the message and throws the error it was given: it never returns
  normally, so the model returns the thrown error together with the new state.
\<close>

definition handleError :: "hook_state \<Rightarrow> js_error \<Rightarrow> js_error \<times> hook_state" where
  "handleError s err = (err, s\<lparr>error := errorMessage err\<rparr>)"

text \<open>\<^verbatim>\<open>err.response?.status === 404\<close>\<close>

definition status_is_404 :: "js_error \<Rightarrow> bool" where
  "status_is_404 err = (case response err of None \<Rightarrow> False | Some r \<Rightarrow> status r = 404)"

text \<open>
  \<open>deleteSession\<close>: \<open>post\<close> is the outcome of the POST to the delete endpoint of the given
  session. \<open>Inl\<close> is a thrown error, \<open>Inr\<close> a returned value; the \<open>finally\<close> block clears
  \<open>isLoading\<close> on every path.
\<close>

definition deleteSession ::
  "(string \<Rightarrow> 'd request_outcome) \<Rightarrow> hook_state \<Rightarrow> string \<Rightarrow> (js_error + 'd js_value) \<times> hook_state"
where
  "deleteSession post s sessionId =
     (let s1 = s\<lparr>isLoading := True, error := None\<rparr> in
      case post sessionId of
        Resolves d \<Rightarrow> (Inr (Data d), s1\<lparr>isLoading := False\<rparr>)
      | Rejects err \<Rightarrow>
          if status_is_404 err
          then (Inr (Object [(''success'', JBool True),
                             (''message'', JString ''Session not found (already deleted)''),
                             (''session_id'', JString sessionId)]),
                s1\<lparr>isLoading := False\<rparr>)
          else (case handleError s1 err of
                  (thrown, s2) \<Rightarrow> (Inl thrown, s2\<lparr>isLoading := False\<rparr>)))"


section \<open>Backend: session state, errors and the durable store\<close>

text \<open>
  A module's result is a Python dict, opaque to the moderator: only its truthiness is
  read. \<open>None\<close> and the empty dict are falsy.
\<close>

type_synonym payload = "(string \<times> string) list"

fun truthy :: "payload option \<Rightarrow> bool" where
  "truthy None = False"
| "truthy (Some r) = (r \<noteq> [])"

text \<open>
  \<open>SessionState\<close>: the fields the code reads and writes. \<open>patient_id\<close> is \<open>None\<close> for a
  session that has no owner; \<open>module_results.get(name)\<close> is the lookup in the map.
\<close>

record SessionState =
  session_id :: string
  patient_id :: "string option"
  current_module :: string
  module_history :: "string list"
  module_results :: "string \<rightharpoonup> payload"
  updated_at :: int
  is_complete :: bool
  metadata :: "(string \<times> string) list"
  version :: int

text \<open>
  What the backend raises: the two \<open>HTTPException\<close>s of \<open>process_message\<close> (status 404 is
  the specification's NotFoundError, 403 its AccessDeniedError), the conflict of
  \<open>update_session\<close>, any exception coming out of the database layer, and any exception
  coming out of a module.
\<close>

datatype py_error =
    HTTP_404_NOT_FOUND
  | HTTP_403_FORBIDDEN
  | ConcurrentModificationError
  | DatabaseException
  | ModuleException

text \<open>The durable table of sessions, one row per session identifier.\<close>

type_synonym session_table = "string \<rightharpoonup> SessionState"

text \<open>
  \<open>update_session\<close> with optimistic locking, in the two parts the method is written in.
  First the query: \<open>.filter(session_id == ..., version == ...).first()\<close> reads the row of
  the session if its stored version is the one the caller holds; no such row raises
  \<open>ConcurrentModificationError\<close>. Nothing is locked and nothing is written here.
\<close>

definition update_session_query :: "session_table \<Rightarrow> SessionState \<Rightarrow> py_error + SessionState" where
  "update_session_query tbl session_state =
     (case tbl (session_id session_state) of
        None \<Rightarrow> Inl ConcurrentModificationError
      | Some existing \<Rightarrow>
          if version existing = version session_state then Inr existing
          else Inl ConcurrentModificationError)"

text \<open>
  Then the assignments: \<open>session_state.version += 1\<close> and
  \<open>existing.version = session_state.version\<close>, written to the row of the session as it
  is in the table by then. The write carries no condition on the stored version. (What the
  method does after that is not shown in the code and is left out.)
\<close>

definition update_session_assign ::
  "session_table \<Rightarrow> SessionState \<Rightarrow> SessionState \<Rightarrow> session_table \<times> SessionState"
where
  "update_session_assign tbl existing session_state =
     (let session_state' = session_state\<lparr>version := version session_state + 1\<rparr>;
          existing' = existing\<lparr>version := version session_state'\<rparr>
      in (tbl(session_id session_state \<mapsto> existing'), session_state'))"

text \<open>One call that no other call overlaps: the query, then the assignments.\<close>

definition update_session ::
  "session_table \<Rightarrow> SessionState \<Rightarrow> py_error + (session_table \<times> SessionState)"
where
  "update_session tbl session_state =
     (case update_session_query tbl session_state of
        Inl e \<Rightarrow> Inl e
      | Inr existing \<Rightarrow> Inr (update_session_assign tbl existing session_state))"

text \<open>
  Two calls of \<open>update_session\<close> in flight on the same table. A call is pending, or has
  run its query and holds the row it read, or has returned with its session state, or has
  raised. A schedule says which caller runs its next part.
\<close>

datatype update_call =
    Pending SessionState
  | Queried SessionState SessionState
  | Returned SessionState
  | Raised py_error

fun step_call :: "session_table \<Rightarrow> update_call \<Rightarrow> session_table \<times> update_call" where
  "step_call tbl (Pending session_state) =
     (case update_session_query tbl session_state of
        Inl e \<Rightarrow> (tbl, Raised e)
      | Inr existing \<Rightarrow> (tbl, Queried session_state existing))"
| "step_call tbl (Queried session_state existing) =
     (case update_session_assign tbl existing session_state of
        (tbl', session_state') \<Rightarrow> (tbl', Returned session_state'))"
| "step_call tbl (Returned session_state) = (tbl, Returned session_state)"
| "step_call tbl (Raised e) = (tbl, Raised e)"

datatype caller = First | Second

fun run_schedule ::
  "session_table \<Rightarrow> update_call \<times> update_call \<Rightarrow> caller list \<Rightarrow>
   session_table \<times> update_call \<times> update_call"
where
  "run_schedule tbl (a, b) [] = (tbl, a, b)"
| "run_schedule tbl (a, b) (First # schedule) =
     (case step_call tbl a of (tbl', a') \<Rightarrow> run_schedule tbl' (a', b) schedule)"
| "run_schedule tbl (a, b) (Second # schedule) =
     (case step_call tbl b of (tbl', b') \<Rightarrow> run_schedule tbl' (a, b') schedule)"

text \<open>
  Modelled from the spec: the database object behind \<open>self.db\<close>, whose methods
  \<open>get_session\<close> and \<open>store_module_results\<close> are called by the moderator but defined
  elsewhere. It holds one durable record per session and a collection of module results
  keyed by session and module; a store that cannot be reached raises on every call.
\<close>

record database =
  session_rows :: session_table
  module_result_rows :: "string \<times> string \<rightharpoonup> payload"
  reachable :: bool

definition get_session :: "database \<Rightarrow> string \<Rightarrow> py_error + SessionState option" where
  "get_session d sid = (if reachable d then Inr (session_rows d sid) else Inl DatabaseException)"

definition store_module_results ::
  "database \<Rightarrow> string \<Rightarrow> string \<Rightarrow> payload \<Rightarrow> py_error + database"
where
  "store_module_results d sid module_name r =
     (if reachable d
      then Inr (d\<lparr>module_result_rows := (module_result_rows d)((sid, module_name) \<mapsto> r)\<rparr>)
      else Inl DatabaseException)"


section \<open>Backend: the moderator\<close>

text \<open>
  The moderator holds the in-memory cache \<open>self.sessions\<close> and, when configured, the
  database (\<open>hasattr(self, 'db') and self.db\<close> is \<open>db self \<noteq> None\<close>).
\<close>

record moderator =
  sessions :: "string \<rightharpoonup> SessionState"
  db :: "database option"

text \<open>
  \<open>get_session_state\<close>: cache, then database, then \<open>None\<close>. An exception of the database
  is logged and the lookup answers \<open>None\<close>. The moderator is returned as well, since a
  database hit warms the cache.
\<close>

definition get_session_state :: "moderator \<Rightarrow> string \<Rightarrow> SessionState option \<times> moderator" where
  "get_session_state self sid =
     (case sessions self sid of
        Some session_state \<Rightarrow> (Some session_state, self)
      | None \<Rightarrow>
          (case db self of
             None \<Rightarrow> (None, self)
           | Some d \<Rightarrow>
               (case get_session d sid of
                  Inl e \<Rightarrow> (None, self)
                | Inr None \<Rightarrow> (None, self)
                | Inr (Some session_state) \<Rightarrow>
                    (Some session_state,
                     self\<lparr>sessions := (sessions self)(sid \<mapsto> session_state)\<rparr>))))"

text \<open>
  Modelled from the spec: the part of \<open>validate_session_ownership\<close> that follows the
  guard on a missing owner and is elided in the code. The session's owner must equal the
  identifier of the caller.
\<close>

definition owner_matches :: "string \<Rightarrow> string \<Rightarrow> bool" where
  "owner_matches session_patient_id patient = (session_patient_id = patient)"

text \<open>
  \<open>validate_session_ownership\<close>: \<open>if not session_patient_id: return False\<close> denies a session
  whose owner is \<open>None\<close> or the empty string, before anything else is compared.
\<close>

definition validate_session_ownership :: "SessionState \<Rightarrow> string \<Rightarrow> bool" where
  "validate_session_ownership session_state patient =
     (case patient_id session_state of
        None \<Rightarrow> False
      | Some session_patient_id \<Rightarrow>
          if session_patient_id = [] then False
          else owner_matches session_patient_id patient)"

text \<open>
  \<open>process_message\<close>, up to the point where message processing proper begins; what follows
  there is the parameter \<open>proceed\<close>. A session that is not found raises 404 and is not
  created; a caller who does not own the session raises 403.
\<close>

definition process_message ::
  "(moderator \<Rightarrow> SessionState \<Rightarrow> string \<Rightarrow> string \<Rightarrow> (py_error + string) \<times> moderator) \<Rightarrow>
   moderator \<Rightarrow> string \<Rightarrow> string \<Rightarrow> string \<Rightarrow> (py_error + string) \<times> moderator"
where
  "process_message proceed self user_id sid msg =
     (case get_session_state self sid of
        (None, self') \<Rightarrow> (Inl HTTP_404_NOT_FOUND, self')
      | (Some session_state, self') \<Rightarrow>
          if \<not> validate_session_ownership session_state user_id
          then (Inl HTTP_403_FORBIDDEN, self')
          else proceed self' session_state user_id msg)"


section \<open>Backend: completing a module\<close>

text \<open>
  The active module as the moderator sees it when the module is complete:
  \<open>get_results\<close> is \<open>None\<close> when the module has no such attribute; otherwise the call
  \<open>module.get_results(session_id)\<close> either raises or returns a result, which may be
  \<open>None\<close> or empty.
\<close>

record assessment_module =
  get_results :: "(string \<Rightarrow> py_error + payload option) option"

text \<open>
  The \<open>try\<close> block. It answers the exception caught, if any, together with the session
  state and the moderator as they are at that moment: the result is put into
  \<open>session_state.module_results\<close> before the database is called. (On a dict,
  \<open>if not session_state.module_results: session_state.module_results = {}\<close> changes
  nothing.)
\<close>

definition persist_module_results ::
  "moderator \<Rightarrow> SessionState \<Rightarrow> string \<Rightarrow> string \<Rightarrow> assessment_module \<Rightarrow>
   py_error option \<times> SessionState \<times> moderator"
where
  "persist_module_results self session_state sid current_module_name module =
     (case get_results module of
        None \<Rightarrow> (None, session_state, self)
      | Some call \<Rightarrow>
          (case call sid of
             Inl e \<Rightarrow> (Some e, session_state, self)
           | Inr None \<Rightarrow> (None, session_state, self)
           | Inr (Some r) \<Rightarrow>
               if r = [] then (None, session_state, self)
               else
                 let session_state1 = session_state
                       \<lparr>module_results := (module_results session_state)(current_module_name \<mapsto> r)\<rparr>
                 in (case db self of
                       None \<Rightarrow> (None, session_state1, self)
                     | Some d \<Rightarrow>
                         (case store_module_results d sid current_module_name r of
                            Inl e \<Rightarrow> (Some e, session_state1, self)
                          | Inr d' \<Rightarrow> (None, session_state1, self\<lparr>db := Some d'\<rparr>)))))"

text \<open>
  Modelled from the spec: \<open>_mark_module_completed\<close>, called by the moderator and defined
  elsewhere. The module that was exited is appended to \<open>module_history\<close>.
\<close>

definition mark_module_completed :: "SessionState \<Rightarrow> string \<Rightarrow> SessionState" where
  "mark_module_completed session_state module_name =
     session_state\<lparr>module_history := module_history session_state @ [module_name]\<rparr>"

text \<open>
  The handling of \<open>module_complete\<close> inside \<open>process_message\<close>. \<open>Return\<close> is the early
  \<open>return\<close> of the error text to the caller; \<open>Continue\<close> falls through to the rest of
  the turn.
\<close>

datatype turn_step = Return string | Continue

definition complete_module ::
  "moderator \<Rightarrow> SessionState \<Rightarrow> string \<Rightarrow> string \<Rightarrow> assessment_module \<Rightarrow> bool \<Rightarrow>
   turn_step \<times> SessionState \<times> moderator"
where
  "complete_module self session_state sid current_module_name module module_complete =
     (if module_complete then
        (case persist_module_results self session_state sid current_module_name module of
           (Some e, session_state1, self1) \<Rightarrow>
             (Return ''Error saving module results. Please try again.'', session_state1, self1)
         | (None, session_state1, self1) \<Rightarrow>
             (Continue, mark_module_completed session_state1 current_module_name, self1))
      else (Continue, session_state, self))"

text \<open>
  A sequence of turns of one session, each with the active module's name, the module and
  its completion flag. The run also lists, in order, the modules that were marked
  completed.
\<close>

fun run_turns ::
  "moderator \<Rightarrow> SessionState \<Rightarrow> (string \<times> assessment_module \<times> bool) list \<Rightarrow>
   SessionState \<times> moderator \<times> string list"
where
  "run_turns self session_state [] = (session_state, self, [])"
| "run_turns self session_state ((name, module, module_complete) # turns) =
     (case complete_module self session_state (session_id session_state) name module module_complete of
        (Return msg, session_state1, self1) \<Rightarrow> run_turns self1 session_state1 turns
      | (Continue, session_state1, self1) \<Rightarrow>
          (case run_turns self1 session_state1 turns of
             (session_state2, self2, completed) \<Rightarrow>
               (session_state2, self2, (if module_complete then [name] else []) @ completed)))"


section \<open>Backend: prerequisites of the synthesis modules\<close>

text \<open>
  \<open>_should_run_da\<close>: the list of diagnostic modules comes from the configuration
  (\<open>get_diagnostic_modules()\<close>) and is a parameter here. The loop returns \<open>False\<close> at the
  first module that is not in the history or has no truthy result.
\<close>

fun should_run_da :: "string list \<Rightarrow> SessionState \<Rightarrow> bool" where
  "should_run_da [] session_state = True"
| "should_run_da (module_name # rest) session_state =
     (if module_name \<notin> set (module_history session_state) then False
      else if \<not> truthy (module_results session_state module_name) then False
      else should_run_da rest session_state)"

text \<open>\<open>_should_run_tpa\<close>: the diagnostic analysis must be in the history, with a truthy result.\<close>

definition should_run_tpa :: "SessionState \<Rightarrow> bool" where
  "should_run_tpa session_state =
     (''da_diagnostic_analysis'' \<in> set (module_history session_state)
      \<and> truthy (module_results session_state ''da_diagnostic_analysis''))"


section \<open>Example states\<close>

text \<open>
  A session of subject \<open>u1\<close> that has completed \<open>intake\<close> and is now in \<open>phq9\<close>, a
  database that holds it, and a moderator whose cache is cold.
\<close>

definition example_session :: SessionState where
  "example_session =
     \<lparr>session_id = ''s-1'', patient_id = Some ''u1'', current_module = ''phq9'',
      module_history = [''intake''],
      module_results = [''intake'' \<mapsto> [(''status'', ''done'')]],
      updated_at = 0, is_complete = False, metadata = [], version = 3\<rparr>"

definition example_db :: database where
  "example_db =
     \<lparr>session_rows = [''s-1'' \<mapsto> example_session], module_result_rows = Map.empty,
      reachable = True\<rparr>"

definition example_moderator :: moderator where
  "example_moderator = \<lparr>sessions = Map.empty, db = Some example_db\<rparr>"

text \<open>A module whose \<open>get_results\<close> returns a one-entry result.\<close>

definition example_module :: assessment_module where
  "example_module = \<lparr>get_results = Some (\<lambda>sid. Inr (Some [(''score'', ''12'')]))\<rparr>"


section \<open>Properties of the frontend helpers\<close>

text \<open>
  C10. The questionnaire-completion flag round-trips through its storage: after
  \<open>markQuestionnaireCompleted\<close> the check answers true, after \<open>resetQuestionnaireStatus\<close> it
  answers false, and the check is true exactly when the value stored under
  \<open>questionnaire_completed\<close> is the string \<open>true\<close>.
\<close>

theorem questionnaire_flag_roundtrip:
  "isQuestionnaireCompleted (markQuestionnaireCompleted ls)
   \<and> \<not> isQuestionnaireCompleted (resetQuestionnaireStatus ls)
   \<and> isQuestionnaireCompleted ls = (ls ''questionnaire_completed'' = Some ''true'')"
  by (simp add: isQuestionnaireCompleted_def markQuestionnaireCompleted_def
      resetQuestionnaireStatus_def getItem_def setItem_def removeItem_def)

text \<open>
  C9. When the delete request is rejected with status 404, \<open>deleteSession\<close> returns the
  success-like object \<open>{success: true, message: 'Session not found (already deleted)',
  session_id}\<close> instead of throwing; every other rejection is thrown again, unchanged.
\<close>

theorem deleteSession_404_is_success:
  "(post sid = Rejects err \<and> status_is_404 err \<longrightarrow>
      fst (deleteSession post s sid) =
        Inr (Object [(''success'', JBool True),
                     (''message'', JString ''Session not found (already deleted)''),
                     (''session_id'', JString sid)]))
   \<and> (post sid = Rejects err \<and> \<not> status_is_404 err \<longrightarrow>
      fst (deleteSession post s sid) = Inl err)"
  by (simp add: deleteSession_def handleError_def Let_def)

theorem deleteSession_404_is_success_witness:
  "fst (deleteSession (\<lambda>_. Rejects \<lparr>response = Some \<lparr>status = 404, detail = None\<rparr>,
                                     message = Some ''Request failed with status code 404''\<rparr>
                         :: unit request_outcome)
          \<lparr>isLoading = False, error = None\<rparr> ''s-1'')
     = Inr (Object [(''success'', JBool True),
                    (''message'', JString ''Session not found (already deleted)''),
                    (''session_id'', JString ''s-1'')])
   \<and> fst (deleteSession (\<lambda>_. Rejects \<lparr>response = Some \<lparr>status = 500, detail = Some ''boom''\<rparr>,
                                       message = None\<rparr> :: unit request_outcome)
          \<lparr>isLoading = False, error = None\<rparr> ''s-1'')
     = Inl \<lparr>response = Some \<lparr>status = 500, detail = Some ''boom''\<rparr>, message = None\<rparr>"
  using deleteSession_404_is_success
          [of "\<lambda>_. Rejects \<lparr>response = Some \<lparr>status = 404, detail = None\<rparr>,
                             message = Some ''Request failed with status code 404''\<rparr>"
              "''s-1''"
              "\<lparr>response = Some \<lparr>status = 404, detail = None\<rparr>,
                message = Some ''Request failed with status code 404''\<rparr>"
              "\<lparr>isLoading = False, error = None\<rparr>"]
        deleteSession_404_is_success
          [of "\<lambda>_. Rejects \<lparr>response = Some \<lparr>status = 500, detail = Some ''boom''\<rparr>,
                             message = None\<rparr>"
              "''s-1''"
              "\<lparr>response = Some \<lparr>status = 500, detail = Some ''boom''\<rparr>, message = None\<rparr>"
              "\<lparr>isLoading = False, error = None\<rparr>"]
  by (simp add: status_is_404_def)

section \<open>Properties of the session store\<close>

lemma update_session_not_overlapped:
  "(update_session tbl s = Inr (tbl', s') \<longrightarrow>
      version s' = version s + 1
      \<and> (\<exists>old new. tbl (session_id s) = Some old \<and> version old = version s
            \<and> tbl' (session_id s) = Some new \<and> version new = version old + 1))
   \<and> (tbl (session_id s) = Some row \<and> version row \<noteq> version s \<longrightarrow>
      update_session tbl s = Inl ConcurrentModificationError)
   \<and> (tbl sid = Some row \<and> session_id s1 = sid \<and> session_id s2 = sid
      \<and> version s1 = version row \<and> version s2 = version row \<longrightarrow>
      run_schedule tbl (Pending s1, Pending s2) [First, First, Second, Second] =
        (tbl(sid \<mapsto> row\<lparr>version := version row + 1\<rparr>),
         Returned (s1\<lparr>version := version row + 1\<rparr>),
         Raised ConcurrentModificationError))"
  by (auto simp: update_session_def update_session_query_def update_session_assign_def Let_def
      split: option.splits if_splits sum.splits)

lemma update_session_overlapped:
  "tbl sid = Some row \<Longrightarrow> session_id s1 = sid \<Longrightarrow> session_id s2 = sid \<Longrightarrow>
   version s1 = version row \<Longrightarrow> version s2 = version row \<Longrightarrow>
   run_schedule tbl (Pending s1, Pending s2) [First, Second, First, Second] =
     (tbl(sid \<mapsto> row\<lparr>version := version row + 1\<rparr>),
      Returned (s1\<lparr>version := version row + 1\<rparr>),
      Returned (s2\<lparr>version := version row + 1\<rparr>))"
  by (simp add: update_session_query_def update_session_assign_def Let_def)

text \<open>
  C1. The claim has a stale update rejected with \<open>ConcurrentModificationError\<close>, and of
  two concurrent updates of one session that start from the same version exactly one
  succeed. The code does not keep this when the two calls overlap. The stored row of
  session \<open>s-1\<close> is at version 3 and both callers hold version 3; both run the query
  before either runs the assignments. Both calls return, each with version 4, none
  raises \<open>ConcurrentModificationError\<close>, and the stored version is 4 after two
  successful updates: the second writer, whose version was stale by the time it wrote,
  was applied. When the second call starts after the first has returned, it is rejected.
\<close>

theorem update_session_overlapping_calls_both_succeed:
  "run_schedule (session_rows example_db)
     (Pending example_session, Pending (example_session\<lparr>current_module := ''gad7''\<rparr>))
     [First, Second, First, Second]
     = ([''s-1'' \<mapsto> example_session\<lparr>version := 4\<rparr>],
        Returned (example_session\<lparr>version := 4\<rparr>),
        Returned (example_session\<lparr>current_module := ''gad7'', version := 4\<rparr>))
   \<and> run_schedule (session_rows example_db)
     (Pending example_session, Pending (example_session\<lparr>current_module := ''gad7''\<rparr>))
     [First, First, Second, Second]
     = ([''s-1'' \<mapsto> example_session\<lparr>version := 4\<rparr>],
        Returned (example_session\<lparr>version := 4\<rparr>),
        Raised ConcurrentModificationError)"
  by (simp add: update_session_query_def update_session_assign_def Let_def
      example_db_def example_session_def)

text \<open>
  C6. \<open>get_session_state\<close> answers from the cache when the session is cached, without
  touching anything; on a cache miss it asks the database, and a session found there is
  put into the cache and returned; a session that is in neither tier is not found, and
  the moderator is left as it was. Whatever session is returned was in one of the two
  tiers: none is made up.
\<close>

theorem get_session_state_two_tier:
  "(sessions self sid = Some st \<longrightarrow> get_session_state self sid = (Some st, self))
   \<and> (sessions self sid = None \<and> db self = Some d \<and> get_session d sid = Inr (Some st) \<longrightarrow>
        get_session_state self sid = (Some st, self\<lparr>sessions := (sessions self)(sid \<mapsto> st)\<rparr>))
   \<and> (sessions self sid = None \<and> (\<forall>d. db self = Some d \<longrightarrow> session_rows d sid = None) \<longrightarrow>
        get_session_state self sid = (None, self))
   \<and> (get_session_state self sid = (Some st, self') \<longrightarrow>
        sessions self sid = Some st \<or> (\<exists>d. db self = Some d \<and> session_rows d sid = Some st))"
  by (auto simp: get_session_state_def get_session_def split: option.splits sum.splits if_splits)

theorem get_session_state_two_tier_witness:
  "get_session_state example_moderator ''s-1''
     = (Some example_session, example_moderator\<lparr>sessions := [''s-1'' \<mapsto> example_session]\<rparr>)
   \<and> get_session_state (example_moderator\<lparr>sessions := [''s-1'' \<mapsto> example_session]\<rparr>) ''s-1''
     = (Some example_session, example_moderator\<lparr>sessions := [''s-1'' \<mapsto> example_session]\<rparr>)
   \<and> get_session_state example_moderator ''s-2'' = (None, example_moderator)"
  using get_session_state_two_tier
          [of example_moderator "''s-1''" example_session example_db]
        get_session_state_two_tier
          [of "example_moderator\<lparr>sessions := [''s-1'' \<mapsto> example_session]\<rparr>" "''s-1''"
              example_session example_db]
        get_session_state_two_tier
          [of example_moderator "''s-2''" example_session example_db]
  by (simp add: example_moderator_def example_db_def get_session_def)


section \<open>Properties of a turn\<close>

text \<open>
  C5. When the session identifier is in neither the cache nor the durable store,
  \<open>process_message\<close> raises the 404 \<open>HTTPException\<close> (not found), whatever the rest of the
  turn would do, and the moderator, cache and database alike, is exactly as before: no
  session has been created.
\<close>

theorem process_message_missing_session:
  "sessions self sid = None \<Longrightarrow>
   (\<forall>d. db self = Some d \<longrightarrow> session_rows d sid = None) \<Longrightarrow>
   process_message proceed self user_id sid msg = (Inl HTTP_404_NOT_FOUND, self)"
  by (auto simp: process_message_def get_session_state_def get_session_def
           split: option.splits sum.splits)

theorem process_message_missing_session_witness:
  "sessions example_moderator ''s-2'' = None
   \<and> db example_moderator = Some example_db
   \<and> session_rows example_db ''s-2'' = None
   \<and> process_message (\<lambda>self st u m. (Inr ''ok'', self)) example_moderator ''u1'' ''s-2'' ''hello''
       = (Inl HTTP_404_NOT_FOUND, example_moderator)"
proof -
  have a: "sessions example_moderator ''s-2'' = None"
    by (simp add: example_moderator_def)
  have b: "\<forall>d. db example_moderator = Some d \<longrightarrow> session_rows d ''s-2'' = None"
    by (simp add: example_moderator_def example_db_def)
  show ?thesis
    using a process_message_missing_session [OF a b]
    by (simp add: example_moderator_def example_db_def)
qed

text \<open>
  C3. When the session exists and its owner is unset, empty, or different from the caller,
  \<open>process_message\<close> raises the 403 \<open>HTTPException\<close> (access denied), whatever the rest of
  the turn would do: the rest of the turn is never reached.
\<close>

theorem process_message_denies_non_owner:
  "get_session_state self sid = (Some st, self') \<Longrightarrow>
   patient_id st = None \<or> patient_id st = Some [] \<or> patient_id st \<noteq> Some user_id \<Longrightarrow>
   process_message proceed self user_id sid msg = (Inl HTTP_403_FORBIDDEN, self')"
  by (auto simp: process_message_def validate_session_ownership_def owner_matches_def
           split: option.splits)

theorem process_message_denies_non_owner_witness:
  "process_message (\<lambda>self st u m. (Inr ''ok'', self))
     \<lparr>sessions = [''s-1'' \<mapsto> example_session\<lparr>patient_id := None\<rparr>], db = None\<rparr>
     ''u1'' ''s-1'' ''hello''
     = (Inl HTTP_403_FORBIDDEN,
        \<lparr>sessions = [''s-1'' \<mapsto> example_session\<lparr>patient_id := None\<rparr>], db = None\<rparr>)
   \<and> process_message (\<lambda>self st u m. (Inr ''ok'', self))
     \<lparr>sessions = [''s-1'' \<mapsto> example_session], db = None\<rparr> ''u2'' ''s-1'' ''hello''
     = (Inl HTTP_403_FORBIDDEN, \<lparr>sessions = [''s-1'' \<mapsto> example_session], db = None\<rparr>)"
proof -
  let ?m1 = "\<lparr>sessions = [''s-1'' \<mapsto> example_session\<lparr>patient_id := None\<rparr>], db = None\<rparr>"
  let ?m2 = "\<lparr>sessions = [''s-1'' \<mapsto> example_session], db = None\<rparr>"
  have g1: "get_session_state ?m1 ''s-1'' = (Some (example_session\<lparr>patient_id := None\<rparr>), ?m1)"
    by (simp add: get_session_state_def)
  have o1: "patient_id (example_session\<lparr>patient_id := None\<rparr>) = None
            \<or> patient_id (example_session\<lparr>patient_id := None\<rparr>) = Some []
            \<or> patient_id (example_session\<lparr>patient_id := None\<rparr>) \<noteq> Some ''u1''"
    by simp
  have g2: "get_session_state ?m2 ''s-1'' = (Some example_session, ?m2)"
    by (simp add: get_session_state_def)
  have o2: "patient_id example_session = None \<or> patient_id example_session = Some []
            \<or> patient_id example_session \<noteq> Some ''u2''"
    by (simp add: example_session_def)
  show ?thesis
    using process_message_denies_non_owner [OF g1 o1] process_message_denies_non_owner [OF g2 o2]
    by simp
qed


section \<open>Properties of the prerequisite checks\<close>

lemma should_run_da_iff:
  "should_run_da ms st =
     (\<forall>m \<in> set ms. m \<in> set (module_history st) \<and> (\<exists>r. module_results st m = Some r \<and> r \<noteq> []))"
proof (induction ms)
  case Nil
  show ?case by simp
next
  case (Cons m ms)
  have t: "truthy (module_results st m) = (\<exists>r. module_results st m = Some r \<and> r \<noteq> [])"
    by (cases "module_results st m") simp_all
  show ?case using Cons.IH by (simp add: t)
qed

text \<open>
  C4. The prerequisite checks are functions of the session state alone (and of the
  configured list of diagnostic modules). \<open>_should_run_da\<close> is true exactly when every
  required module is in \<open>module_history\<close> and has a non-empty entry in \<open>module_results\<close>;
  \<open>_should_run_tpa\<close> is the same test for the diagnostic analysis
  (\<open>da_diagnostic_analysis\<close>): false while that module is in the history without an entry,
  true once a non-empty entry is there.
\<close>

theorem prerequisites_history_and_results:
  "should_run_da ms st =
     (\<forall>m \<in> set ms. m \<in> set (module_history st) \<and> (\<exists>r. module_results st m = Some r \<and> r \<noteq> []))
   \<and> should_run_tpa st =
       (''da_diagnostic_analysis'' \<in> set (module_history st)
        \<and> (\<exists>r. module_results st ''da_diagnostic_analysis'' = Some r \<and> r \<noteq> []))
   \<and> (''da_diagnostic_analysis'' \<in> set (module_history st)
        \<and> module_results st ''da_diagnostic_analysis'' = None \<longrightarrow> \<not> should_run_tpa st)
   \<and> (''da_diagnostic_analysis'' \<in> set (module_history st) \<and> r \<noteq> [] \<longrightarrow>
        should_run_tpa (st\<lparr>module_results := (module_results st)(''da_diagnostic_analysis'' \<mapsto> r)\<rparr>))"
proof -
  have t: "truthy (module_results st ''da_diagnostic_analysis'')
           = (\<exists>r. module_results st ''da_diagnostic_analysis'' = Some r \<and> r \<noteq> [])"
    by (cases "module_results st ''da_diagnostic_analysis''") simp_all
  show ?thesis
    by (simp add: should_run_da_iff should_run_tpa_def t)
qed

theorem prerequisites_history_and_results_witness:
  "should_run_da [''intake''] example_session
   \<and> \<not> should_run_da [''intake'', ''phq9''] example_session
   \<and> \<not> should_run_tpa (example_session\<lparr>module_history := [''intake'', ''da_diagnostic_analysis'']\<rparr>)
   \<and> should_run_tpa
       (example_session\<lparr>module_history := [''intake'', ''da_diagnostic_analysis''],
                        module_results := (module_results example_session)
                          (''da_diagnostic_analysis'' \<mapsto> [(''diagnosis'', ''mild'')])\<rparr>)"
  using prerequisites_history_and_results [of "[''intake'']" example_session "[(''diagnosis'', ''mild'')]"]
    prerequisites_history_and_results [of "[''intake'', ''phq9'']" example_session "[(''diagnosis'', ''mild'')]"]
    prerequisites_history_and_results
      [of "[]" "example_session\<lparr>module_history := [''intake'', ''da_diagnostic_analysis'']\<rparr>"
          "[(''diagnosis'', ''mild'')]"]
  by (simp add: example_session_def)


section \<open>Properties of module completion\<close>

lemma persist_module_results_keeps:
  "persist_module_results self st sid cur module = (e, st1, self1) \<Longrightarrow>
   module_history st1 = module_history st \<and> session_id st1 = session_id st"
  by (auto simp: persist_module_results_def Let_def split: option.splits sum.splits if_splits)

lemma persist_module_results_grow:
  "persist_module_results self st sid cur module = (e, st1, self1) \<Longrightarrow>
   module_results st n = Some x \<Longrightarrow> module_results st1 n \<noteq> None"
  by (auto simp: persist_module_results_def Let_def split: option.splits sum.splits if_splits)

lemma persist_module_results_entry:
  "persist_module_results self st sid cur module = (e, st1, self1) \<Longrightarrow>
   get_results module = Some call \<Longrightarrow> call sid = Inr (Some r) \<Longrightarrow> r \<noteq> [] \<Longrightarrow>
   module_results st1 cur = Some r"
  by (auto simp: persist_module_results_def Let_def split: option.splits sum.splits if_splits)

lemma complete_module_history:
  "complete_module self st sid cur module c = (step, st1, self1) \<Longrightarrow>
   module_history st1 = module_history st @ (if step = Continue \<and> c then [cur] else [])"
  by (auto simp: complete_module_def mark_module_completed_def
      split: if_splits prod.splits option.splits dest: persist_module_results_keeps)

lemma complete_module_session_id:
  "complete_module self st sid cur module c = (step, st1, self1) \<Longrightarrow>
   session_id st1 = session_id st"
  by (auto simp: complete_module_def mark_module_completed_def
      split: if_splits prod.splits option.splits dest: persist_module_results_keeps)

lemma complete_module_results_grow:
  "complete_module self st sid cur module c = (step, st1, self1) \<Longrightarrow>
   module_results st n = Some x \<Longrightarrow> module_results st1 n \<noteq> None"
  by (auto simp: complete_module_def mark_module_completed_def
      split: if_splits prod.splits option.splits dest: persist_module_results_grow)

lemma complete_module_entry:
  "complete_module self st sid cur module True = (step, st1, self1) \<Longrightarrow>
   get_results module = Some call \<Longrightarrow> call sid = Inr (Some r) \<Longrightarrow> r \<noteq> [] \<Longrightarrow>
   module_results st1 cur = Some r"
  by (auto simp: complete_module_def mark_module_completed_def
      split: if_splits prod.splits option.splits dest: persist_module_results_entry)

lemma run_turns_step:
  assumes "run_turns self st ((name, module, c) # turns) = (st', self', completed)"
  obtains step st1 self1 later where
    "complete_module self st (session_id st) name module c = (step, st1, self1)"
    "run_turns self1 st1 turns = (st', self', later)"
    "completed = (if step = Continue \<and> c then [name] else []) @ later"
proof -
  obtain step st1 self1 where
    cm: "complete_module self st (session_id st) name module c = (step, st1, self1)"
    by (cases "complete_module self st (session_id st) name module c")
  obtain st2 self2 later where rt: "run_turns self1 st1 turns = (st2, self2, later)"
    by (cases "run_turns self1 st1 turns")
  show thesis
  proof (cases step)
    case (Return msg)
    with assms cm rt have "st' = st2" "self' = self2" "completed = later" by simp_all
    with cm rt Return that show thesis by simp
  next
    case Continue
    with assms cm rt have "st' = st2" "self' = self2"
      "completed = (if c then [name] else []) @ later"
      by simp_all
    with cm rt Continue that show thesis by simp
  qed
qed

lemma run_turns_history:
  "run_turns self st turns = (st', self', completed) \<Longrightarrow>
   module_history st' = module_history st @ completed"
proof (induction turns arbitrary: self st completed)
  case Nil
  then show ?case by simp
next
  case (Cons t turns)
  obtain name module c where t: "t = (name, module, c)" by (cases t)
  from Cons.prems t
  have "run_turns self st ((name, module, c) # turns) = (st', self', completed)" by simp
  then obtain step st1 self1 later where
    cm: "complete_module self st (session_id st) name module c = (step, st1, self1)" and
    rt: "run_turns self1 st1 turns = (st', self', later)" and
    co: "completed = (if step = Continue \<and> c then [name] else []) @ later"
    by (rule run_turns_step)
  have "module_history st' = module_history st1 @ later"
    using Cons.IH [OF rt] .
  with complete_module_history [OF cm] co show ?case by simp
qed

lemma run_turns_results_grow:
  "run_turns self st turns = (st', self', completed) \<Longrightarrow>
   module_results st n = Some x \<Longrightarrow> module_results st' n \<noteq> None"
proof (induction turns arbitrary: self st completed x)
  case Nil
  then show ?case by auto
next
  case (Cons t turns)
  obtain name module c where t: "t = (name, module, c)" by (cases t)
  from Cons.prems(1) t
  have "run_turns self st ((name, module, c) # turns) = (st', self', completed)" by simp
  then obtain step st1 self1 later where
    cm: "complete_module self st (session_id st) name module c = (step, st1, self1)" and
    rt: "run_turns self1 st1 turns = (st', self', later)"
    by (rule run_turns_step)
  from complete_module_results_grow [OF cm Cons.prems(2)]
  obtain y where y: "module_results st1 n = Some y" by auto
  show ?case using Cons.IH [OF rt y] .
qed

lemma run_turns_entries:
  "run_turns self st turns = (st', self', completed) \<Longrightarrow>
   (name, module, True) \<in> set turns \<Longrightarrow>
   get_results module = Some call \<Longrightarrow> call (session_id st) = Inr (Some r) \<Longrightarrow> r \<noteq> [] \<Longrightarrow>
   module_results st' name \<noteq> None"
proof (induction turns arbitrary: self st completed)
  case Nil
  then show ?case by simp
next
  case (Cons t turns)
  obtain name0 module0 c0 where t: "t = (name0, module0, c0)" by (cases t)
  from Cons.prems(1) t
  have "run_turns self st ((name0, module0, c0) # turns) = (st', self', completed)" by simp
  then obtain step st1 self1 later where
    cm: "complete_module self st (session_id st) name0 module0 c0 = (step, st1, self1)" and
    rt: "run_turns self1 st1 turns = (st', self', later)"
    by (rule run_turns_step)
  have sid: "session_id st1 = session_id st"
    using complete_module_session_id [OF cm] .
  show ?case
  proof (cases "(name, module, True) = t")
    case True
    with t cm have "complete_module self st (session_id st) name module True = (step, st1, self1)"
      by simp
    from complete_module_entry [OF this Cons.prems(3) Cons.prems(4) Cons.prems(5)]
    have "module_results st1 name = Some r" .
    from run_turns_results_grow [OF rt this] show ?thesis .
  next
    case False
    with Cons.prems(2) have mem: "(name, module, True) \<in> set turns" by auto
    from Cons.prems(4) sid have "call (session_id st1) = Inr (Some r)" by simp
    from Cons.IH [OF rt mem Cons.prems(3) this Cons.prems(5)] show ?thesis .
  qed
qed

text \<open>
  C2, as amended. When the active module is complete, returns a non-empty result and a
  database is configured, the result is put into \<open>session_state.module_results\<close> and
  handed to \<open>db.store_module_results\<close>, and only when that call has returned is the module
  marked completed. When the call raises, the turn returns the error text, the module is
  not marked completed (history and current module are as before) and the database is
  unchanged; the session state in memory keeps the new entry of \<open>module_results\<close>.
\<close>

theorem complete_module_persists_before_marking:
  assumes "get_results module = Some call" and "call sid = Inr (Some r)" and "r \<noteq> []"
    and "db self = Some d"
  shows "(reachable d \<longrightarrow>
           complete_module self st sid cur module True =
             (Continue,
              st\<lparr>module_results := (module_results st)(cur \<mapsto> r),
                 module_history := module_history st @ [cur]\<rparr>,
              self\<lparr>db := Some (d\<lparr>module_result_rows :=
                                   (module_result_rows d)((sid, cur) \<mapsto> r)\<rparr>)\<rparr>))
       \<and> (\<not> reachable d \<longrightarrow>
           complete_module self st sid cur module True =
             (Return ''Error saving module results. Please try again.'',
              st\<lparr>module_results := (module_results st)(cur \<mapsto> r)\<rparr>, self))"
  using assms
  by (simp add: complete_module_def persist_module_results_def store_module_results_def
      mark_module_completed_def Let_def)

theorem complete_module_persists_before_marking_witness:
  "complete_module example_moderator example_session ''s-1'' ''phq9'' example_module True =
     (Continue,
      example_session\<lparr>module_results := (module_results example_session)(''phq9'' \<mapsto> [(''score'', ''12'')]),
                       module_history := [''intake'', ''phq9'']\<rparr>,
      example_moderator\<lparr>db := Some (example_db\<lparr>module_result_rows :=
                                      [(''s-1'', ''phq9'') \<mapsto> [(''score'', ''12'')]]\<rparr>)\<rparr>)
   \<and> complete_module (example_moderator\<lparr>db := Some (example_db\<lparr>reachable := False\<rparr>)\<rparr>)
        example_session ''s-1'' ''phq9'' example_module True =
     (Return ''Error saving module results. Please try again.'',
      example_session\<lparr>module_results := (module_results example_session)(''phq9'' \<mapsto> [(''score'', ''12'')])\<rparr>,
      example_moderator\<lparr>db := Some (example_db\<lparr>reachable := False\<rparr>)\<rparr>)"
  using complete_module_persists_before_marking
      [where module = example_module and call = "\<lambda>sid. Inr (Some [(''score'', ''12'')])"
         and sid = "''s-1''" and r = "[(''score'', ''12'')]" and self = example_moderator
         and d = example_db and st = example_session and cur = "''phq9''"]
    complete_module_persists_before_marking
      [where module = example_module and call = "\<lambda>sid. Inr (Some [(''score'', ''12'')])"
         and sid = "''s-1''" and r = "[(''score'', ''12'')]"
         and self = "example_moderator\<lparr>db := Some (example_db\<lparr>reachable := False\<rparr>)\<rparr>"
         and d = "example_db\<lparr>reachable := False\<rparr>" and st = example_session
         and cur = "''phq9''"]
  by (simp add: example_module_def example_moderator_def example_db_def example_session_def)

text \<open>
  As first stated, the claim has the session state after a failed persistence equal to
  the state of a session whose module never completed. It is not: with an unreachable
  database the turn returns the error text, and the session state, which is the object
  held in \<open>self.sessions\<close> and read again by the next turn, has gained the entry
  \<open>module_results['phq9']\<close> that it did not have before.
\<close>

theorem failed_persistence_state_counterexample:
  "fst (complete_module (example_moderator\<lparr>db := Some (example_db\<lparr>reachable := False\<rparr>)\<rparr>)
          example_session ''s-1'' ''phq9'' example_module True)
     = Return ''Error saving module results. Please try again.''
   \<and> module_results example_session ''phq9'' = None
   \<and> module_results
        (fst (snd (complete_module (example_moderator\<lparr>db := Some (example_db\<lparr>reachable := False\<rparr>)\<rparr>)
                     example_session ''s-1'' ''phq9'' example_module True))) ''phq9''
       = Some [(''score'', ''12'')]
   \<and> fst (snd (complete_module (example_moderator\<lparr>db := Some (example_db\<lparr>reachable := False\<rparr>)\<rparr>)
                  example_session ''s-1'' ''phq9'' example_module True))
       \<noteq> example_session"
proof -
  let ?m = "example_moderator\<lparr>db := Some (example_db\<lparr>reachable := False\<rparr>)\<rparr>"
  let ?after = "example_session
      \<lparr>module_results := (module_results example_session)(''phq9'' \<mapsto> [(''score'', ''12'')])\<rparr>"
  have run: "complete_module ?m example_session ''s-1'' ''phq9'' example_module True =
      (Return ''Error saving module results. Please try again.'', ?after, ?m)"
    by (simp add: complete_module_def persist_module_results_def store_module_results_def
        Let_def example_module_def example_moderator_def example_db_def)
  have before: "module_results example_session ''phq9'' = None"
    by (simp add: example_session_def)
  have differ: "?after \<noteq> example_session"
  proof
    assume "?after = example_session"
    then have "module_results ?after ''phq9'' = module_results example_session ''phq9''"
      by simp
    with before show False by simp
  qed
  show ?thesis using before differ by (simp add: run)
qed

text \<open>
  C7, as amended. \<open>module_history\<close> only grows by appending the module just marked
  completed, never reordered or truncated: after a run of turns it is the earlier history
  followed by the modules marked completed in that run, in order. Every module that was
  complete in the run with a non-empty result has an entry in \<open>module_results\<close>. (A module
  that is complete without a result is appended all the same, and has no entry.)
\<close>

theorem module_history_append_only:
  assumes "run_turns self st turns = (st', self', completed)"
  shows "module_history st' = module_history st @ completed
       \<and> (\<forall>(name, module, c) \<in> set turns. \<forall>call r.
             c \<and> get_results module = Some call \<and> call (session_id st) = Inr (Some r) \<and> r \<noteq> []
             \<longrightarrow> module_results st' name \<noteq> None)"
proof
  show "module_history st' = module_history st @ completed"
    using run_turns_history [OF assms] .
  show "\<forall>(name, module, c) \<in> set turns. \<forall>call r.
             c \<and> get_results module = Some call \<and> call (session_id st) = Inr (Some r) \<and> r \<noteq> []
             \<longrightarrow> module_results st' name \<noteq> None"
    using run_turns_entries [OF assms] by fastforce
qed

theorem module_history_append_only_witness:
  "module_history
     (fst (run_turns example_moderator example_session
             [(''phq9'', example_module, True), (''gad7'', \<lparr>get_results = None\<rparr>, True)]))
     = [''intake'', ''phq9'', ''gad7'']
   \<and> snd (snd (run_turns example_moderator example_session
             [(''phq9'', example_module, True), (''gad7'', \<lparr>get_results = None\<rparr>, True)]))
     = [''phq9'', ''gad7'']
   \<and> module_results
     (fst (run_turns example_moderator example_session
             [(''phq9'', example_module, True), (''gad7'', \<lparr>get_results = None\<rparr>, True)])) ''phq9''
     \<noteq> None"
proof -
  let ?turns = "[(''phq9'', example_module, True), (''gad7'', \<lparr>get_results = None\<rparr>, True)]"
  obtain st' self' completed where
    run: "run_turns example_moderator example_session ?turns = (st', self', completed)"
    by (cases "run_turns example_moderator example_session ?turns")
  have co: "completed = [''phq9'', ''gad7'']"
    using run
    by (simp add: complete_module_def persist_module_results_def store_module_results_def
        mark_module_completed_def Let_def example_module_def example_moderator_def
        example_db_def example_session_def)
  have g: "get_results example_module = Some (\<lambda>sid. Inr (Some [(''score'', ''12'')]))"
    by (simp add: example_module_def)
  from module_history_append_only [OF run]
  have h: "module_history st' = module_history example_session @ completed"
    and e: "\<forall>(name, module, c) \<in> set ?turns. \<forall>call r.
             c \<and> get_results module = Some call
             \<and> call (session_id example_session) = Inr (Some r) \<and> r \<noteq> []
             \<longrightarrow> module_results st' name \<noteq> None"
    by simp_all
  from e g have "module_results st' ''phq9'' \<noteq> None"
    by simp
  with h co run show ?thesis
    by (simp add: example_session_def)
qed

text \<open>
  As first stated, the claim has no module in \<open>module_history\<close> without a result in
  \<open>module_results\<close>. A module that has no \<open>get_results\<close> and reports completion is
  marked completed and has no entry.
\<close>

theorem completed_without_result_counterexample:
  "''gad7'' \<in> set (module_history
       (fst (snd (complete_module example_moderator example_session ''s-1'' ''gad7''
                    \<lparr>get_results = None\<rparr> True))))
   \<and> module_results
       (fst (snd (complete_module example_moderator example_session ''s-1'' ''gad7''
                    \<lparr>get_results = None\<rparr> True))) ''gad7'' = None"
  by (simp add: complete_module_def persist_module_results_def mark_module_completed_def
      example_session_def)

end
